theory Spec2Isabelle
  imports Main "HOL-Library.Word"
begin

section \<open>Error reporting shared by both source files\<close>

text \<open>
  libgit2 keeps one "last error" slot per thread: \<open>git_error_set(class, message)\<close>
  overwrites it, and the failing function returns a negative \<open>int\<close>. The slot is a
  field of the explicit state below; the classes are the three that the two source files
  name.
\<close>

datatype git_error_t = GIT_ERROR_OS | GIT_ERROR_CONFIG | GIT_ERROR_PATCH

record git_error =
  klass :: git_error_t
  message :: string

section \<open>config\_snapshot.c: the read-only snapshot backend\<close>

text \<open>
  \<open>config_snapshot_backend\<close> (lines 12-17). The entry table is a list of name/value
  pairs, absent (\<open>NULL\<close>) until \<open>open\<close> has copied the source; the source backend is
  the address of another backend; \<open>parent_readonly\<close> is \<open>parent.readonly\<close>, and
  \<open>values_mutex\<close> tells whether the mutex is held.
\<close>

type_synonym git_config_entries = "(string \<times> string) list"

record config_snapshot_backend =
  parent_readonly :: bool
  values_mutex :: bool
  entries :: "git_config_entries option"
  source :: nat

text \<open>
  The state the operations run in: the backends by address (the C functions receive a
  pointer \<open>cfg\<close>), and the last-error slot.
\<close>

record git_state =
  backends :: "nat \<Rightarrow> config_snapshot_backend option"
  last_error :: "git_error option"

text \<open>\<open>git_error_set\<close>: store class and message in the last-error slot.\<close>

definition git_error_set :: "git_error_t \<Rightarrow> string \<Rightarrow> git_state \<Rightarrow> git_state" where
  "git_error_set c msg s = s\<lparr>last_error := Some \<lparr>klass = c, message = msg\<rparr>\<rparr>"

text \<open>\<open>config_error_readonly\<close> (lines 19-23): set the error and return \<open>-1\<close>.\<close>

definition config_error_readonly :: "git_state \<Rightarrow> int \<times> git_state" where
  "config_error_readonly s =
     (-1, git_error_set GIT_ERROR_CONFIG ''this backend is read-only'' s)"

text \<open>
  The mutation entry points (lines 78-128). Every argument is \<open>GIT_UNUSED\<close>; the body is
  the call of \<open>config_error_readonly\<close>.
\<close>

definition config_snapshot_set ::
  "nat \<Rightarrow> string \<Rightarrow> string \<Rightarrow> git_state \<Rightarrow> int \<times> git_state" where
  "config_snapshot_set cfg name val s = config_error_readonly s"

definition config_snapshot_set_multivar ::
  "nat \<Rightarrow> string \<Rightarrow> string \<Rightarrow> string \<Rightarrow> git_state \<Rightarrow> int \<times> git_state" where
  "config_snapshot_set_multivar cfg name regexp val s = config_error_readonly s"

definition config_snapshot_delete_multivar ::
  "nat \<Rightarrow> string \<Rightarrow> string \<Rightarrow> git_state \<Rightarrow> int \<times> git_state" where
  "config_snapshot_delete_multivar cfg name regexp s = config_error_readonly s"

definition config_snapshot_delete :: "nat \<Rightarrow> string \<Rightarrow> git_state \<Rightarrow> int \<times> git_state" where
  "config_snapshot_delete cfg name s = config_error_readonly s"

definition config_snapshot_lock :: "nat \<Rightarrow> git_state \<Rightarrow> int \<times> git_state" where
  "config_snapshot_lock cfg s = config_error_readonly s"

definition config_snapshot_unlock :: "nat \<Rightarrow> int \<Rightarrow> git_state \<Rightarrow> int \<times> git_state" where
  "config_snapshot_unlock cfg success s = config_error_readonly s"

section \<open>patch\_parse.c: shared pieces\<close>

text \<open>
  The source file is an excerpt: it holds the statements quoted below and leaves out
  others of the same functions. Each definition says which lines it renders, and which
  part, if any, is modelled from the specification because the excerpt omits it.
\<close>

subsection \<open>Errors\<close>

text \<open>
  A failing parser function returns \<open>Inl\<close>. \<open>Reported\<close> carries what
  \<open>git_parse_err\<close> (lines 1-11) or \<open>git_error_set\<close> stored in the last-error slot,
  with the message text of the source. The other two constructors stand for failures
  whose message is not in the excerpt; they are named after the error taxonomy of the
  specification (section 7), and carry the cursor's line number where one applies.
\<close>

datatype patch_failure =
    Reported git_error
  | Hunk_line_count_mismatch
  | Binary_decode_failure nat

definition git_parse_err :: "string \<Rightarrow> patch_failure + 'a" where
  "git_parse_err msg = Inl (Reported \<lparr>klass = GIT_ERROR_PATCH, message = msg\<rparr>)"

text \<open>The \<open>PRIuZ\<close> conversion of the format strings: a \<open>size_t\<close> in decimal.\<close>

fun fmt_uz :: "nat \<Rightarrow> string" where
  "fmt_uz n =
     (if n < 10 then [char_of (48 + n)]
      else fmt_uz (n div 10) @ [char_of (48 + n mod 10)])"

declare fmt_uz.simps [simp del]

subsection \<open>The C type \<open>int\<close>\<close>

text \<open>
  \<open>old_lineno\<close>, \<open>new_lineno\<close>, \<open>origin\<close> and \<open>prefix\<close> are declared \<open>int\<close> (line 63),
  and the hunk fields and the remaining-line counters are passed to the \<open>_int_\<close>
  overflow helpers together with them. \<open>int\<close> is 32 bits wide on every platform the
  library builds on: a 32-bit word, read as two's complement by \<open>sint\<close>.
\<close>

type_synonym c_int = "32 word"

definition INT_MAX :: int where
  "INT_MAX = 2147483647"

definition INT_MIN :: int where
  "INT_MIN = - 2147483648"

definition in_int :: "int \<Rightarrow> bool" where
  "in_int v \<longleftrightarrow> INT_MIN \<le> v \<and> v \<le> INT_MAX"

text \<open>
  Modelled from the spec: \<open>git__add_int_overflow\<close> and \<open>git__sub_int_overflow\<close> are
  called at lines 65-68 and defined outside the excerpt. Section 4.2: the addition or
  subtraction is performed with explicit overflow detection, and an overflow is reported
  rather than wrapped. \<open>None\<close> is the helper returning true (overflow); \<open>Some r\<close> is
  the helper returning false after storing \<open>r\<close> through its \<open>int *out\<close>.
\<close>

definition git__add_int_overflow :: "c_int \<Rightarrow> c_int \<Rightarrow> c_int option" where
  "git__add_int_overflow one two =
     (if in_int (sint one + sint two) then Some (one + two) else None)"

definition git__sub_int_overflow :: "c_int \<Rightarrow> c_int \<Rightarrow> c_int option" where
  "git__sub_int_overflow one two =
     (if in_int (sint one - sint two) then Some (one - two) else None)"

subsection \<open>The parse cursor\<close>

text \<open>
  Modelled from the spec: the line-oriented parse cursor \<open>git_parse_ctx\<close> is an external
  collaborator (sections 1 and 3); the excerpt only reads its fields \<open>line\<close>,
  \<open>line_len\<close>, \<open>line_num\<close>, \<open>content_len\<close> and \<open>remain_len\<close> and calls its
  operations. The cursor holds the text that is left, cut into lines that keep their
  terminator; the head of \<open>remaining\<close> is the current line from the cursor position on.
  Line numbers are 1-based.
\<close>

record git_parse_ctx =
  content_len :: nat
  remaining :: "string list"
  line_num :: nat

definition git_parse_ctx_init :: "string list \<Rightarrow> git_parse_ctx" where
  "git_parse_ctx_init ls =
     \<lparr>content_len = sum_list (map length ls), remaining = ls, line_num = 1\<rparr>"

definition ctx_line :: "git_parse_ctx \<Rightarrow> string" where
  "ctx_line ctx = (case remaining ctx of [] \<Rightarrow> [] | l # _ \<Rightarrow> l)"

definition line_len :: "git_parse_ctx \<Rightarrow> nat" where
  "line_len ctx = length (ctx_line ctx)"

definition remain_len :: "git_parse_ctx \<Rightarrow> nat" where
  "remain_len ctx = sum_list (map length (remaining ctx))"

definition git_parse_advance_line :: "git_parse_ctx \<Rightarrow> git_parse_ctx" where
  "git_parse_advance_line ctx =
     ctx\<lparr>remaining := tl (remaining ctx), line_num := line_num ctx + 1\<rparr>"

definition git_parse_advance_chars :: "git_parse_ctx \<Rightarrow> nat \<Rightarrow> git_parse_ctx" where
  "git_parse_advance_chars ctx n =
     (case remaining ctx of
        [] \<Rightarrow> ctx
      | l # ls \<Rightarrow> ctx\<lparr>remaining := drop n l # ls\<rparr>)"

text \<open>"Advance past literal string": fails (\<open>None\<close>) unless the line starts with it.\<close>

definition git_parse_advance_expected_str ::
  "git_parse_ctx \<Rightarrow> string \<Rightarrow> git_parse_ctx option" where
  "git_parse_advance_expected_str ctx expected =
     (if take (length expected) (ctx_line ctx) = expected
      then Some (git_parse_advance_chars ctx (length expected))
      else None)"

text \<open>"Advance past newline": fails unless only the newline is left of the line.\<close>

definition git_parse_advance_nl :: "git_parse_ctx \<Rightarrow> git_parse_ctx option" where
  "git_parse_advance_nl ctx =
     (if ctx_line ctx = [CHR 0x0A] then Some (git_parse_advance_line ctx) else None)"

section \<open>patch\_parse.c: the hunk body parser\<close>

subsection \<open>Data\<close>

text \<open>
  The origin tags of a line. In C they are \<open>int\<close> constants, and \<open>last_origin\<close>
  starts as \<open>0\<close>, which is none of them (line 62): \<open>None\<close> below.
\<close>

datatype git_diff_line_t =
    GIT_DIFF_LINE_CONTEXT
  | GIT_DIFF_LINE_ADDITION
  | GIT_DIFF_LINE_DELETION
  | GIT_DIFF_LINE_CONTEXT_EOFNL
  | GIT_DIFF_LINE_ADD_EOFNL
  | GIT_DIFF_LINE_DEL_EOFNL

record git_diff_line =
  origin :: git_diff_line_t
  old_lineno :: c_int
  new_lineno :: c_int
  num_lines :: c_int
  line_content_len :: nat
  content_offset :: nat
  content :: string

record git_diff_hunk =
  old_start :: c_int
  old_lines :: c_int
  new_start :: c_int
  new_lines :: c_int

text \<open>\<open>eof_for_origin\<close> (lines 54-60).\<close>

definition eof_for_origin :: "git_diff_line_t option \<Rightarrow> git_diff_line_t" where
  "eof_for_origin origin' =
     (if origin' = Some GIT_DIFF_LINE_ADDITION then GIT_DIFF_LINE_ADD_EOFNL
      else if origin' = Some GIT_DIFF_LINE_DELETION then GIT_DIFF_LINE_DEL_EOFNL
      else GIT_DIFF_LINE_CONTEXT_EOFNL)"

subsection \<open>One line of the body\<close>

text \<open>
  Lines 65-68: the running line numbers, \<open>old_start + old_lines - oldlines\<close> and
  \<open>new_start + new_lines - newlines\<close>, each step through an overflow helper, the four
  calls joined by \<open>||\<close> in this order. \<open>None\<close> is the condition of the \<open>if\<close> being
  true.
\<close>

definition hunk_linenos :: "git_diff_hunk \<Rightarrow> c_int \<Rightarrow> c_int \<Rightarrow> (c_int \<times> c_int) option" where
  "hunk_linenos hunk oldlines newlines =
     (case git__add_int_overflow (old_start hunk) (old_lines hunk) of
        None \<Rightarrow> None
      | Some old_sum \<Rightarrow>
     (case git__sub_int_overflow old_sum oldlines of
        None \<Rightarrow> None
      | Some old_lineno' \<Rightarrow>
     (case git__add_int_overflow (new_start hunk) (new_lines hunk) of
        None \<Rightarrow> None
      | Some new_sum \<Rightarrow>
     (case git__sub_int_overflow new_sum newlines of
        None \<Rightarrow> None
      | Some new_lineno' \<Rightarrow> Some (old_lineno', new_lineno')))))"

text \<open>
  \<open>git__strndup\<close> (called at lines 91 and 107) is the library's \<open>strndup\<close>: a copy of
  at most \<open>n\<close> bytes of the string, ending before the first NUL byte among them.
\<close>

definition git__strndup :: "string \<Rightarrow> nat \<Rightarrow> string" where
  "git__strndup s n = takeWhile (\<lambda>c. c \<noteq> CHR 0x00) (take n s)"

text \<open>
  Lines 90-95: the record of an emitted line. The content is copied from the line after
  its first \<open>prefix\<close> bytes, \<open>content_len\<close> bytes at most (line 91); the offset is
  \<open>content_len - remain_len\<close> of the cursor
  (as at line 109; the cursor never has more left than the whole content). A line is
  emitted with \<open>prefix = 1\<close> only after its first character has been read, so the
  length \<open>line_len - prefix\<close> does not go below zero.
\<close>

definition emit_line ::
  "git_parse_ctx \<Rightarrow> nat \<Rightarrow> git_diff_line_t \<Rightarrow> c_int \<Rightarrow> c_int \<Rightarrow> git_diff_line" where
  "emit_line ctx prefix origin' old_lineno' new_lineno' =
     \<lparr>origin = origin',
      old_lineno = old_lineno',
      new_lineno = new_lineno',
      num_lines = 1,
      line_content_len = line_len ctx - prefix,
      content_offset = content_len ctx - remain_len ctx,
      content = git__strndup (drop prefix (ctx_line ctx)) (line_len ctx - prefix)\<rparr>"

text \<open>
  The body of the loop, for the current line. The result is an error, or \<open>None\<close> when
  the line does not belong to the hunk, or the emitted line with the two counters after
  it.

  From the source: the overflow check and its error (lines 65-72); \<open>new_lineno = -1\<close> in
  the deletion case and \<open>old_lineno = -1\<close> in the addition case (lines 73-74); the whole
  backslash case (lines 75-87), which falls through to the next case when \<open>oldlines\<close> is
  not zero; \<open>prefix = 1\<close> unless the backslash case sets it to \<open>0\<close> (lines 63, 82).

  Modelled from the spec: the case labels and counter updates of the other three cases,
  and the case after the backslash case, are not in the excerpt. Section 4.3: a space is
  a context line and consumes one from both remaining counters; \<open>+\<close> is an addition and
  consumes one from the new counter only; \<open>-\<close> is a deletion and consumes one from the
  old counter only; any other leading character signals the end of the hunk and the
  cursor is not advanced past the line (if a counter is not exhausted then, the check
  after the loop fails the hunk).
\<close>

definition parse_hunk_line ::
  "git_diff_hunk \<Rightarrow> git_parse_ctx \<Rightarrow> c_int \<Rightarrow> c_int \<Rightarrow> git_diff_line_t option \<Rightarrow>
   patch_failure + (git_diff_line \<times> c_int \<times> c_int) option" where
  "parse_hunk_line hunk ctx oldlines newlines last_origin =
     (case hunk_linenos hunk oldlines newlines of
        None \<Rightarrow>
          git_parse_err (''unrepresentable line count at line '' @ fmt_uz (line_num ctx))
      | Some (old_lineno', new_lineno') \<Rightarrow>
          (case ctx_line ctx of
             [] \<Rightarrow> Inr None
           | c # _ \<Rightarrow>
               if c = CHR '' '' then
                 Inr (Some (emit_line ctx 1 GIT_DIFF_LINE_CONTEXT old_lineno' new_lineno',
                            oldlines - 1, newlines - 1))
               else if c = CHR ''-'' then
                 Inr (Some (emit_line ctx 1 GIT_DIFF_LINE_DELETION old_lineno' (- 1),
                            oldlines - 1, newlines))
               else if c = CHR ''+'' then
                 Inr (Some (emit_line ctx 1 GIT_DIFF_LINE_ADDITION (- 1) new_lineno',
                            oldlines, newlines - 1))
               else if c = CHR 0x5C \<and> oldlines = 0 then
                 Inr (Some (emit_line ctx 0 (eof_for_origin last_origin) (- 1) (- 1),
                            oldlines, newlines))
               else Inr None))"

subsection \<open>The loop and the function\<close>

text \<open>
  The state of the loop: the cursor, the two remaining counters, \<open>last_origin\<close>, the
  patch's array of lines (\<open>patch->base.lines\<close>, shared by all hunks of the patch) and
  the hunk's \<open>line_count\<close>.
\<close>

record hunk_body_state =
  cursor :: git_parse_ctx
  oldlines :: c_int
  newlines :: c_int
  last_origin :: "git_diff_line_t option"
  base_lines :: "git_diff_line list"
  line_count :: nat

text \<open>
  Modelled from the spec: the head of the loop is not in the excerpt. Section 4.3: the
  body parser consumes the hunk line by line; with both counters exhausted the next line
  belongs to the next hunk or file section; the input may end first. The loop runs while
  a line is left and a counter is not zero. After each emitted line the array grows by
  that line, \<open>line_count\<close> by one, \<open>last_origin\<close> becomes the line's origin (line 97),
  and the cursor moves to the next line.
\<close>

definition after_line ::
  "hunk_body_state \<Rightarrow> git_diff_line \<Rightarrow> c_int \<Rightarrow> c_int \<Rightarrow> hunk_body_state" where
  "after_line st l oldlines' newlines' =
     \<lparr>cursor = git_parse_advance_line (cursor st),
      oldlines = oldlines',
      newlines = newlines',
      last_origin = Some (origin l),
      base_lines = base_lines st @ [l],
      line_count = line_count st + 1\<rparr>"

function parse_hunk_lines :: "git_diff_hunk \<Rightarrow> hunk_body_state \<Rightarrow> patch_failure + hunk_body_state" where
  "parse_hunk_lines hunk st =
     (if remaining (cursor st) = [] \<or> (oldlines st = 0 \<and> newlines st = 0) then Inr st
      else
        (case parse_hunk_line hunk (cursor st) (oldlines st) (newlines st) (last_origin st) of
           Inl e \<Rightarrow> Inl e
         | Inr None \<Rightarrow> Inr st
         | Inr (Some (l, oldlines', newlines')) \<Rightarrow>
             parse_hunk_lines hunk (after_line st l oldlines' newlines')))"
  by pat_completeness auto
termination
  by (relation "measure (\<lambda>(hunk, st). length (remaining (cursor st)))")
    (auto simp: after_line_def git_parse_advance_line_def)

declare parse_hunk_lines.simps [simp del]

text \<open>
  \<open>parse_hunk_body\<close>. The counters start from the hunk header and \<open>last_origin\<close> from
  \<open>0\<close> (line 62).

  Modelled from the spec: the check after the loop is not in the excerpt. Section 4.3: the
  hunk is malformed, and parsing fails, if either remaining counter is still nonzero
  (section 7: hunk line-count mismatch).

  Lines 98-115 handle a "no newline at end of file" marker that follows the hunk: a new
  line is appended whose content is copied from the whole marker line, with origin
  \<open>eof_for_origin(last_origin)\<close> and both line numbers \<open>-1\<close>, and \<open>line_count\<close> grows.
  Modelled from the spec: the guard of this block is not in the excerpt. Only the
  leading backslash of the marker is expected (comment at line 98, section 4.3), and there
  must be a last line in the array for the marker to refer to. Line 100 records the error
  "last line has no trailing newline"; the test on the last line that leads there is not
  in the excerpt and is the parameter \<open>lacks_newline\<close>. After line 100 the variable
  \<open>error\<close> holds the \<open>-1\<close> of \<open>git_parse_err\<close> and no later line of the excerpt
  assigns it: the function returns that error.
\<close>

definition hunk_body_start ::
  "git_diff_line list \<Rightarrow> git_diff_hunk \<Rightarrow> git_parse_ctx \<Rightarrow> hunk_body_state" where
  "hunk_body_start patch_lines hunk ctx =
     \<lparr>cursor = ctx, oldlines = old_lines hunk, newlines = new_lines hunk,
      last_origin = None, base_lines = patch_lines, line_count = 0\<rparr>"

definition trailing_eofnl :: "hunk_body_state \<Rightarrow> git_diff_line" where
  "trailing_eofnl st =
     \<lparr>origin = eof_for_origin (last_origin st),
      old_lineno = - 1,
      new_lineno = - 1,
      num_lines = 1,
      line_content_len = line_len (cursor st),
      content_offset = content_len (cursor st) - remain_len (cursor st),
      content = git__strndup (ctx_line (cursor st)) (line_len (cursor st))\<rparr>"

definition parse_hunk_body ::
  "(git_diff_line \<Rightarrow> bool) \<Rightarrow> git_diff_line list \<Rightarrow> git_diff_hunk \<Rightarrow> git_parse_ctx \<Rightarrow>
   patch_failure + hunk_body_state" where
  "parse_hunk_body lacks_newline patch_lines hunk ctx =
     (case parse_hunk_lines hunk (hunk_body_start patch_lines hunk ctx) of
        Inl e \<Rightarrow> Inl e
      | Inr st \<Rightarrow>
          if oldlines st \<noteq> 0 \<or> newlines st \<noteq> 0 then Inl Hunk_line_count_mismatch
          else if take 1 (ctx_line (cursor st)) = [CHR 0x5C] \<and> base_lines st \<noteq> [] then
            (if lacks_newline (last (base_lines st))
             then git_parse_err ''last line has no trailing newline''
             else Inr (st\<lparr>cursor := git_parse_advance_line (cursor st),
                          base_lines := base_lines st @ [trailing_eofnl st],
                          line_count := line_count st + 1\<rparr>))
          else Inr st)"

subsection \<open>Notions used by the properties of the hunk body parser\<close>

text \<open>
  A line counts against the old side when its origin is context or deletion, and against
  the new side when it is context or addition.
\<close>

definition on_old_side :: "git_diff_line \<Rightarrow> bool" where
  "on_old_side l \<longleftrightarrow> origin l = GIT_DIFF_LINE_CONTEXT \<or> origin l = GIT_DIFF_LINE_DELETION"

definition on_new_side :: "git_diff_line \<Rightarrow> bool" where
  "on_new_side l \<longleftrightarrow> origin l = GIT_DIFF_LINE_CONTEXT \<or> origin l = GIT_DIFF_LINE_ADDITION"

text \<open>
  The four values that lines 65-68 compute, as exact integers, all lie in the range of
  \<open>int\<close>.
\<close>

definition line_count_representable :: "git_diff_hunk \<Rightarrow> c_int \<Rightarrow> c_int \<Rightarrow> bool" where
  "line_count_representable hunk oldlines' newlines' \<longleftrightarrow>
     in_int (sint (old_start hunk) + sint (old_lines hunk)) \<and>
     in_int (sint (old_start hunk) + sint (old_lines hunk) - sint oldlines') \<and>
     in_int (sint (new_start hunk) + sint (new_lines hunk)) \<and>
     in_int (sint (new_start hunk) + sint (new_lines hunk) - sint newlines')"

text \<open>
  The reading of the specification (section 4.2), for comparison with the code: the same
  four values do not overflow signed 64-bit arithmetic.
\<close>

definition in_int64 :: "int \<Rightarrow> bool" where
  "in_int64 v \<longleftrightarrow> - (2 ^ 63) \<le> v \<and> v < 2 ^ 63"

definition line_count_representable_int64 :: "git_diff_hunk \<Rightarrow> c_int \<Rightarrow> c_int \<Rightarrow> bool" where
  "line_count_representable_int64 hunk oldlines' newlines' \<longleftrightarrow>
     in_int64 (sint (old_start hunk) + sint (old_lines hunk)) \<and>
     in_int64 (sint (old_start hunk) + sint (old_lines hunk) - sint oldlines') \<and>
     in_int64 (sint (new_start hunk) + sint (new_lines hunk)) \<and>
     in_int64 (sint (new_start hunk) + sint (new_lines hunk) - sint newlines')"


section \<open>patch\_parse.c: header paths and binary sections\<close>

subsection \<open>The patch being built\<close>

text \<open>
  The fields of \<open>git_patch_parsed\<close> that the excerpt reads or tests: the two header
  paths, the two paths that the \<open>---\<close> and \<open>+++\<close> handlers record, the status of the
  delta and its binary flag. An absent path is a \<open>NULL\<close> pointer.
\<close>

datatype git_delta_t =
    GIT_DELTA_UNMODIFIED
  | GIT_DELTA_ADDED
  | GIT_DELTA_DELETED
  | GIT_DELTA_MODIFIED
  | GIT_DELTA_RENAMED
  | GIT_DELTA_COPIED
  | GIT_DELTA_TYPECHANGE

record git_patch_parsed =
  header_old_path :: "string option"
  header_new_path :: "string option"
  old_path :: "string option"
  new_path :: "string option"
  status :: git_delta_t
  flag_binary :: bool

text \<open>\<open>size_t\<close>: an unsigned 64-bit word; subtraction wraps around.\<close>

type_synonym size_t = "64 word"

subsection \<open>The path handlers of the header table\<close>



subsection \<open>The header table and its matcher\<close>

text \<open>
  The states of the header parser (section 3 of the specification; the excerpt names
  \<open>STATE_DIFF\<close>, \<open>STATE_PATH\<close>, \<open>STATE_END\<close>, \<open>STATE_SIMILARITY\<close> and \<open>STATE_INDEX\<close>).
  \<open>STATE_0\<close> is the next state \<open>0\<close> of line 51, which that list does not name.
\<close>

datatype parse_header_state =
    STATE_0
  | STATE_DIFF
  | STATE_PATH
  | STATE_MODE
  | STATE_INDEX
  | STATE_SIMILARITY
  | STATE_RENAME
  | STATE_COPY
  | STATE_END










subsection \<open>The short form of a binary section\<close>

text \<open>
  \<open>parse_patch_binary_nodata\<close>. Lines 122-123: the old name is \<open>old_path\<close> if there is
  one, else \<open>header_old_path\<close>; likewise the new name.
\<close>

definition binary_old :: "git_patch_parsed \<Rightarrow> string option" where
  "binary_old patch = (if old_path patch \<noteq> None then old_path patch else header_old_path patch)"

definition binary_new :: "git_patch_parsed \<Rightarrow> string option" where
  "binary_new patch = (if new_path patch \<noteq> None then new_path patch else header_new_path patch)"

text \<open>
  Lines 125-126: without both names, "corrupt binary data without paths at line N".
  Lines 128-131: for an added file the old name becomes \<open>/dev/null\<close>, else for a deleted
  file the new name does. Lines 133-137: the names, \<open>" and "\<close>, \<open>" differ"\<close> and the
  newline are matched in turn, each only if the one before matched.

  Modelled from the spec: the first member of the condition, the statement run when the
  condition is true and those run after a match are not in the excerpt. Section 4.4: the
  line is \<open>Binary files <old> and <new> differ\<close>; when the names do not match, "corrupt
  binary data without paths" is raised; on a match the binary flag is set and no payload
  is decoded.
\<close>

definition parse_patch_binary_nodata ::
  "git_patch_parsed \<Rightarrow> git_parse_ctx \<Rightarrow> patch_failure + git_patch_parsed \<times> git_parse_ctx" where
  "parse_patch_binary_nodata patch ctx =
     (case (binary_old patch, binary_new patch) of
        (Some old0, Some new0) \<Rightarrow>
          let old = (if status patch = GIT_DELTA_ADDED then ''/dev/null'' else old0);
              new = (if status patch = GIT_DELTA_ADDED then new0
                     else if status patch = GIT_DELTA_DELETED then ''/dev/null'' else new0)
          in
            (case Option.bind (git_parse_advance_expected_str ctx ''Binary files '') (\<lambda>c1.
                  Option.bind (git_parse_advance_expected_str c1 old) (\<lambda>c2.
                  Option.bind (git_parse_advance_expected_str c2 '' and '') (\<lambda>c3.
                  Option.bind (git_parse_advance_expected_str c3 new) (\<lambda>c4.
                  Option.bind (git_parse_advance_expected_str c4 '' differ'')
                    git_parse_advance_nl)))) of
               None \<Rightarrow>
                 git_parse_err (''corrupt binary data without paths at line '' @
                                fmt_uz (line_num ctx))
             | Some ctx' \<Rightarrow> Inr (patch\<lparr>flag_binary := True\<rparr>, ctx'))
      | _ \<Rightarrow>
          git_parse_err (''corrupt binary data without paths at line '' @ fmt_uz (line_num ctx)))"

text \<open>The names the line must carry, after the substitution of lines 128-131.\<close>

definition expected_old :: "git_patch_parsed \<Rightarrow> string option" where
  "expected_old patch =
     (if status patch = GIT_DELTA_ADDED then Some ''/dev/null'' else binary_old patch)"

definition expected_new :: "git_patch_parsed \<Rightarrow> string option" where
  "expected_new patch =
     (if status patch = GIT_DELTA_DELETED then Some ''/dev/null'' else binary_new patch)"

subsection \<open>One data line of the long form\<close>

text \<open>
  Line 119, in \<open>parse_patch_binary_side\<close>: the test made on \<open>encoded_len\<close>, the number of
  radix-85 characters the line must hold, before the line is decoded. Both operands are
  \<open>size_t\<close>, so \<open>line_len - 1\<close> wraps around when \<open>line_len\<close> is zero; the middle member
  of the condition comes first.
\<close>

definition binary_line_truncated :: "size_t \<Rightarrow> size_t \<Rightarrow> bool" where
  "binary_line_truncated encoded_len line_len' \<longleftrightarrow>
     encoded_len = 0 \<or> line_len' = 0 \<or> encoded_len > line_len' - 1"

text \<open>
  Modelled from the spec: the statement run when the condition is true and the call of
  the decoder are not in the excerpt. Section 7: a binary decode failure is fatal;
  section 4.4: the leading byte of the line gives the count of characters of the line to
  decode. The result is the failure, or the \<open>encoded_len\<close> characters at the cursor that
  are handed to the decoder.
\<close>

definition binary_line_encoded :: "size_t \<Rightarrow> git_parse_ctx \<Rightarrow> patch_failure + string" where
  "binary_line_encoded encoded_len ctx =
     (if binary_line_truncated encoded_len (of_nat (line_len ctx))
      then Inl (Binary_decode_failure (line_num ctx))
      else Inr (take (unat encoded_len) (ctx_line ctx)))"

section \<open>Example inputs\<close>

text \<open>
  A hunk \<open>@@ -3,2 +3,2 @@\<close> whose body is a context line, a deletion, an addition and
  the marker "\ No newline at end of file", and the state \<open>parse_hunk_body\<close> reaches on
  it from a fresh cursor.
\<close>

definition ex_hunk :: git_diff_hunk where
  "ex_hunk = \<lparr>old_start = 3, old_lines = 2, new_start = 3, new_lines = 2\<rparr>"

definition ex_marker :: string where
  "ex_marker = CHR 0x5C # '' No newline at end of file\<newline>''"

definition ex_body :: "string list" where
  "ex_body = ['' a\<newline>'', ''-b\<newline>'', ''+c\<newline>'', ex_marker]"

definition ex_body_parsed :: hunk_body_state where
  "ex_body_parsed =
     \<lparr>cursor = \<lparr>content_len = 37, remaining = [], line_num = 5\<rparr>,
      oldlines = 0, newlines = 0,
      last_origin = Some GIT_DIFF_LINE_ADDITION,
      base_lines =
        [\<lparr>origin = GIT_DIFF_LINE_CONTEXT, old_lineno = 3, new_lineno = 3, num_lines = 1,
          line_content_len = 2, content_offset = 0, content = ''a\<newline>''\<rparr>,
         \<lparr>origin = GIT_DIFF_LINE_DELETION, old_lineno = 4, new_lineno = - 1, num_lines = 1,
          line_content_len = 2, content_offset = 3, content = ''b\<newline>''\<rparr>,
         \<lparr>origin = GIT_DIFF_LINE_ADDITION, old_lineno = - 1, new_lineno = 4, num_lines = 1,
          line_content_len = 2, content_offset = 6, content = ''c\<newline>''\<rparr>,
         \<lparr>origin = GIT_DIFF_LINE_ADD_EOFNL, old_lineno = - 1, new_lineno = - 1, num_lines = 1,
          line_content_len = 28, content_offset = 9, content = ex_marker\<rparr>],
      line_count = 4\<rparr>"

text \<open>A hunk header at the edge of the \<open>int\<close> range: \<open>@@ -2147483647,1 +1,1 @@\<close>.\<close>

definition ex_edge_hunk :: git_diff_hunk where
  "ex_edge_hunk = \<lparr>old_start = 2147483647, old_lines = 1, new_start = 1, new_lines = 1\<rparr>"

text \<open>A file section for \<open>x.bin\<close> after its \<open>---\<close> and \<open>+++\<close> lines.\<close>

definition ex_patch :: git_patch_parsed where
  "ex_patch =
     \<lparr>header_old_path = Some ''a/x.bin'', header_new_path = Some ''b/x.bin'',
      old_path = Some ''a/x.bin'', new_path = Some ''b/x.bin'',
      status = GIT_DELTA_MODIFIED, flag_binary = False\<rparr>"








section \<open>Properties of the snapshot backend\<close>

text \<open>
  Claim C8. For every state, every backend address and every argument, each of
  \<open>set\<close>, \<open>set_multivar\<close>, \<open>delete\<close>, \<open>delete_multivar\<close> and \<open>lock\<close> returns \<open>-1\<close>,
  leaves the last-error slot holding the same fixed read-only error, and leaves every
  backend (entries, source, mutex, flags) as it was.
\<close>

theorem snapshot_mutations_rejected:
  "config_snapshot_set cfg name val s =
     (-1, s\<lparr>last_error := Some \<lparr>klass = GIT_ERROR_CONFIG, message = ''this backend is read-only''\<rparr>\<rparr>) \<and>
   config_snapshot_set_multivar cfg name regexp val s =
     (-1, s\<lparr>last_error := Some \<lparr>klass = GIT_ERROR_CONFIG, message = ''this backend is read-only''\<rparr>\<rparr>) \<and>
   config_snapshot_delete cfg name s =
     (-1, s\<lparr>last_error := Some \<lparr>klass = GIT_ERROR_CONFIG, message = ''this backend is read-only''\<rparr>\<rparr>) \<and>
   config_snapshot_delete_multivar cfg name regexp s =
     (-1, s\<lparr>last_error := Some \<lparr>klass = GIT_ERROR_CONFIG, message = ''this backend is read-only''\<rparr>\<rparr>) \<and>
   config_snapshot_lock cfg s =
     (-1, s\<lparr>last_error := Some \<lparr>klass = GIT_ERROR_CONFIG, message = ''this backend is read-only''\<rparr>\<rparr>) \<and>
   backends (snd (config_snapshot_set cfg name val s)) = backends s \<and>
   backends (snd (config_snapshot_set_multivar cfg name regexp val s)) = backends s \<and>
   backends (snd (config_snapshot_delete cfg name s)) = backends s \<and>
   backends (snd (config_snapshot_delete_multivar cfg name regexp s)) = backends s \<and>
   backends (snd (config_snapshot_lock cfg s)) = backends s"
  by (simp add: config_snapshot_set_def config_snapshot_set_multivar_def
      config_snapshot_delete_def config_snapshot_delete_multivar_def
      config_snapshot_lock_def config_error_readonly_def git_error_set_def)

text \<open>
  Claim C10. \<open>unlock\<close> is rejected in the same way, for every backend address and for
  every value of its \<open>success\<close> argument: it returns \<open>-1\<close>, sets the fixed read-only
  error, and changes no backend.
\<close>

theorem snapshot_unlock_rejected:
  "fst (config_snapshot_unlock cfg success s) = -1 \<and>
   last_error (snd (config_snapshot_unlock cfg success s)) =
     Some \<lparr>klass = GIT_ERROR_CONFIG, message = ''this backend is read-only''\<rparr> \<and>
   backends (snd (config_snapshot_unlock cfg success s)) = backends s"
  by (simp add: config_snapshot_unlock_def config_error_readonly_def git_error_set_def)

section \<open>Properties of the hunk body parser\<close>

subsection \<open>The overflow helpers\<close>

lemma sint_add_exact:
  fixes a b :: c_int
  shows "in_int (sint a + sint b) \<Longrightarrow> sint (a + b) = sint a + sint b"
  by (simp add: in_int_def INT_MIN_def INT_MAX_def sint_word_ariths signed_take_bit_int_eq_self)

lemma sint_sub_exact:
  fixes a b :: c_int
  shows "in_int (sint a - sint b) \<Longrightarrow> sint (a - b) = sint a - sint b"
  by (simp add: in_int_def INT_MIN_def INT_MAX_def sint_word_ariths signed_take_bit_int_eq_self)

lemma sint_c_int_range: "in_int (sint (a :: c_int))"
  using sint_ge [of a] sint_lt [of a]
  by (simp add: in_int_def INT_MIN_def INT_MAX_def)

lemma sint_dec_exact:
  fixes a :: c_int
  shows "INT_MIN < sint a \<Longrightarrow> sint (a - 1) = sint a - 1"
  using sint_c_int_range [of a] sint_sub_exact [of a 1]
  by (simp add: in_int_def INT_MIN_def INT_MAX_def)

lemma hunk_linenos_None:
  "hunk_linenos h ol nl = None \<longleftrightarrow> \<not> line_count_representable h ol nl"
  by (auto simp: hunk_linenos_def line_count_representable_def git__add_int_overflow_def
      git__sub_int_overflow_def sint_add_exact split: option.splits)

lemma hunk_linenos_Some:
  "hunk_linenos h ol nl = Some (p, q) \<Longrightarrow>
     line_count_representable h ol nl \<and>
     sint p = sint (old_start h) + sint (old_lines h) - sint ol \<and>
     sint q = sint (new_start h) + sint (new_lines h) - sint nl"
  by (auto simp: hunk_linenos_def line_count_representable_def git__add_int_overflow_def
      git__sub_int_overflow_def sint_add_exact sint_sub_exact split: option.splits if_splits)

subsection \<open>One line\<close>

lemma parse_hunk_line_overflow:
  "\<not> line_count_representable h ol nl \<Longrightarrow>
   parse_hunk_line h ctx ol nl lo =
     git_parse_err (''unrepresentable line count at line '' @ fmt_uz (line_num ctx))"
  by (simp add: parse_hunk_line_def hunk_linenos_None [symmetric])

text \<open>The four ways in which a line is emitted.\<close>

lemma parse_hunk_line_Some:
  assumes "parse_hunk_line h ctx ol nl lo = Inr (Some (l, ol', nl'))"
  obtains p q where "hunk_linenos h ol nl = Some (p, q)"
    and "(origin l = GIT_DIFF_LINE_CONTEXT \<and> old_lineno l = p \<and> new_lineno l = q \<and>
            ol' = ol - 1 \<and> nl' = nl - 1 \<and> take 1 (ctx_line ctx) = [CHR '' '']) \<or>
         (origin l = GIT_DIFF_LINE_DELETION \<and> old_lineno l = p \<and> new_lineno l = - 1 \<and>
            ol' = ol - 1 \<and> nl' = nl \<and> take 1 (ctx_line ctx) = [CHR ''-'']) \<or>
         (origin l = GIT_DIFF_LINE_ADDITION \<and> old_lineno l = - 1 \<and> new_lineno l = q \<and>
            ol' = ol \<and> nl' = nl - 1 \<and> take 1 (ctx_line ctx) = [CHR ''+'']) \<or>
         (origin l = eof_for_origin lo \<and> old_lineno l = - 1 \<and> new_lineno l = - 1 \<and>
            ol' = ol \<and> nl' = nl \<and> ol = 0 \<and> take 1 (ctx_line ctx) = [CHR 0x5C])"
  using assms
  by (auto simp: parse_hunk_line_def git_parse_err_def emit_line_def
      split: option.splits list.splits if_splits)

lemma eof_for_origin_sides [simp]:
  "eof_for_origin lo \<noteq> GIT_DIFF_LINE_CONTEXT"
  "eof_for_origin lo \<noteq> GIT_DIFF_LINE_ADDITION"
  "eof_for_origin lo \<noteq> GIT_DIFF_LINE_DELETION"
  "GIT_DIFF_LINE_CONTEXT \<noteq> eof_for_origin lo"
  "GIT_DIFF_LINE_ADDITION \<noteq> eof_for_origin lo"
  "GIT_DIFF_LINE_DELETION \<noteq> eof_for_origin lo"
  by (simp_all add: eof_for_origin_def)

text \<open>
  A counter that has passed the check of lines 65-68 is above \<open>INT_MIN\<close> when the sum
  it is subtracted from is not negative, so decrementing it does not wrap.
\<close>

lemma counter_above_INT_MIN:
  assumes "in_int (s - sint (c :: c_int))" and "0 \<le> s"
  shows "INT_MIN < sint c"
  using assms by (simp add: in_int_def INT_MIN_def INT_MAX_def)

lemma parse_hunk_line_counts:
  assumes old0: "0 \<le> sint (old_start h) + sint (old_lines h)"
    and new0: "0 \<le> sint (new_start h) + sint (new_lines h)"
    and line: "parse_hunk_line h ctx ol nl lo = Inr (Some (l, ol', nl'))"
  shows "sint ol = sint ol' + (if on_old_side l then 1 else 0) \<and>
         sint nl = sint nl' + (if on_new_side l then 1 else 0)"
proof -
  from line obtain p q where pq: "hunk_linenos h ol nl = Some (p, q)"
    and cases: "(origin l = GIT_DIFF_LINE_CONTEXT \<and> ol' = ol - 1 \<and> nl' = nl - 1) \<or>
         (origin l = GIT_DIFF_LINE_DELETION \<and> ol' = ol - 1 \<and> nl' = nl) \<or>
         (origin l = GIT_DIFF_LINE_ADDITION \<and> ol' = ol \<and> nl' = nl - 1) \<or>
         (origin l = eof_for_origin lo \<and> ol' = ol \<and> nl' = nl)"
    by (rule parse_hunk_line_Some) auto
  from hunk_linenos_Some [OF pq] have rep: "line_count_representable h ol nl" by simp
  from rep old0 have "INT_MIN < sint ol"
    by (auto simp: line_count_representable_def intro: counter_above_INT_MIN)
  then have dec_old: "sint (ol - 1) = sint ol - 1" by (rule sint_dec_exact)
  from rep new0 have "INT_MIN < sint nl"
    by (auto simp: line_count_representable_def intro: counter_above_INT_MIN)
  then have dec_new: "sint (nl - 1) = sint nl - 1" by (rule sint_dec_exact)
  from cases dec_old dec_new show ?thesis
    by (auto simp: on_old_side_def on_new_side_def)
qed

subsection \<open>The loop\<close>

text \<open>
  A relation between the state at the head of the loop and the state it ends in holds
  when it holds for a loop that stops at once and is preserved by one more line in front.
\<close>

lemma parse_hunk_lines_rule:
  assumes run: "parse_hunk_lines h st = Inr st'"
    and stop: "\<And>s. R s s"
    and step: "\<And>s l ol' nl' s'.
        remaining (cursor s) \<noteq> [] \<Longrightarrow>
        parse_hunk_line h (cursor s) (oldlines s) (newlines s) (last_origin s) =
          Inr (Some (l, ol', nl')) \<Longrightarrow>
        R (after_line s l ol' nl') s' \<Longrightarrow> R s s'"
  shows "R st st'"
  using run step
proof (induction h st rule: parse_hunk_lines.induct)
  case (1 hunk st)
  note run' = "1.prems"(1) and step' = "1.prems"(2)
  show ?case
  proof (cases "remaining (cursor st) = [] \<or> (oldlines st = 0 \<and> newlines st = 0)")
    case True
    with run' have "st' = st" by (simp add: parse_hunk_lines.simps)
    then show ?thesis by (simp add: stop)
  next
    case False
    then have ne: "remaining (cursor st) \<noteq> []"
      and nz: "\<not> (oldlines st = 0 \<and> newlines st = 0)" by auto
    have unfold: "parse_hunk_lines hunk st =
        (case parse_hunk_line hunk (cursor st) (oldlines st) (newlines st) (last_origin st) of
           Inl e \<Rightarrow> Inl e
         | Inr None \<Rightarrow> Inr st
         | Inr (Some (l, ol', nl')) \<Rightarrow> parse_hunk_lines hunk (after_line st l ol' nl'))"
      by (subst parse_hunk_lines.simps) (simp add: ne nz)
    show ?thesis
    proof (cases "parse_hunk_line hunk (cursor st) (oldlines st) (newlines st) (last_origin st)")
      case (Inl e)
      with unfold run' show ?thesis by simp
    next
      case (Inr r)
      show ?thesis
      proof (cases r)
        case None
        with Inr unfold run' have "st' = st" by simp
        then show ?thesis by (simp add: stop)
      next
        case (Some t)
        obtain l ol' nl' where t: "t = (l, ol', nl')" by (cases t)
        from Some t Inr unfold run'
        have rec: "parse_hunk_lines hunk (after_line st l ol' nl') = Inr st'"
          by simp
        have "R (after_line st l ol' nl') st'"
          by (rule "1.IH" [OF False Inr Some t [symmetric] refl rec step'])
        with ne Inr Some t show ?thesis
          by (intro step' [of st l ol' nl' st']) auto
      qed
    qed
  qed
qed

lemma parse_hunk_lines_counts:
  assumes old0: "0 \<le> sint (old_start h) + sint (old_lines h)"
    and new0: "0 \<le> sint (new_start h) + sint (new_lines h)"
    and run: "parse_hunk_lines h st = Inr st'"
  shows "\<exists>new. base_lines st' = base_lines st @ new \<and>
           line_count st' = line_count st + length new \<and>
           sint (oldlines st) = sint (oldlines st') + int (length (filter on_old_side new)) \<and>
           sint (newlines st) = sint (newlines st') + int (length (filter on_new_side new))"
    (is "?R st st'")
  using run
proof (rule parse_hunk_lines_rule [where R = ?R])
  fix s show "?R s s" by simp
next
  fix s l ol' nl' s'
  assume line: "parse_hunk_line h (cursor s) (oldlines s) (newlines s) (last_origin s) =
      Inr (Some (l, ol', nl'))"
    and rest: "?R (after_line s l ol' nl') s'"
  from rest obtain new where new: "base_lines s' = base_lines s @ l # new"
    "line_count s' = line_count s + 1 + length new"
    "sint ol' = sint (oldlines s') + int (length (filter on_old_side new))"
    "sint nl' = sint (newlines s') + int (length (filter on_new_side new))"
    by (auto simp: after_line_def)
  from parse_hunk_line_counts [OF old0 new0 line] new
  show "?R s s'"
    by (intro exI [of _ "l # new"]) auto
qed




subsection \<open>The function\<close>

lemma parse_hunk_body_Inr:
  assumes "parse_hunk_body g pl h ctx = Inr st"
  obtains st1 where "parse_hunk_lines h (hunk_body_start pl h ctx) = Inr st1"
    and "oldlines st1 = 0" and "newlines st1 = 0"
    and "st = st1 \<or>
         (take 1 (ctx_line (cursor st1)) = [CHR 0x5C] \<and>
          st = st1\<lparr>cursor := git_parse_advance_line (cursor st1),
                    base_lines := base_lines st1 @ [trailing_eofnl st1],
                    line_count := line_count st1 + 1\<rparr>)"
  using assms
  by (auto simp: parse_hunk_body_def git_parse_err_def split: sum.splits if_splits)

lemmas hunk_body_eval =
  parse_hunk_body_def hunk_body_start_def git_parse_ctx_init_def parse_hunk_lines.simps
  parse_hunk_line_def hunk_linenos_def git__add_int_overflow_def git__sub_int_overflow_def
  in_int_def INT_MIN_def INT_MAX_def after_line_def emit_line_def ctx_line_def line_len_def
  remain_len_def git_parse_advance_line_def trailing_eofnl_def eof_for_origin_def
  git__strndup_def

lemma ex_body_run:
  "parse_hunk_body (\<lambda>l. False) [] ex_hunk (git_parse_ctx_init ex_body) = Inr ex_body_parsed"
  by (simp add: hunk_body_eval ex_hunk_def ex_body_def ex_marker_def ex_body_parsed_def)

lemma ex_body_short_run:
  "parse_hunk_lines ex_hunk (hunk_body_start [] ex_hunk (git_parse_ctx_init (take 1 ex_body))) =
     Inr \<lparr>cursor = \<lparr>content_len = 3, remaining = [], line_num = 2\<rparr>,
          oldlines = 1, newlines = 1, last_origin = Some GIT_DIFF_LINE_CONTEXT,
          base_lines =
            [\<lparr>origin = GIT_DIFF_LINE_CONTEXT, old_lineno = 3, new_lineno = 3, num_lines = 1,
              line_content_len = 2, content_offset = 0, content = ''a\<newline>''\<rparr>],
          line_count = 1\<rparr>"
  (is "_ = Inr ?s1")
  by (simp add: hunk_body_eval ex_hunk_def ex_body_def ex_marker_def)

text \<open>
  Claim C1. Let the four header fields be non-negative, as the hunk header parser delivers
  them. If \<open>parse_hunk_body\<close> succeeds, then among the lines it appended for the hunk
  those with origin context or deletion number exactly \<open>old_lines\<close>, and those with
  origin context or addition number exactly \<open>new_lines\<close>. If the loop stops, at the end
  of the input or elsewhere, with a remaining counter that is not zero, then
  \<open>parse_hunk_body\<close> fails.
\<close>

theorem hunk_line_counts_match:
  assumes "0 \<le> sint (old_start h)" and "0 \<le> sint (old_lines h)"
    and "0 \<le> sint (new_start h)" and "0 \<le> sint (new_lines h)"
  shows "(parse_hunk_body g pl h ctx = Inr st \<longrightarrow>
            int (length (filter on_old_side (drop (length pl) (base_lines st)))) =
              sint (old_lines h) \<and>
            int (length (filter on_new_side (drop (length pl) (base_lines st)))) =
              sint (new_lines h)) \<and>
         (parse_hunk_lines h (hunk_body_start pl h ctx) = Inr st1 \<and>
            (oldlines st1 \<noteq> 0 \<or> newlines st1 \<noteq> 0) \<longrightarrow>
          parse_hunk_body g pl h ctx = Inl Hunk_line_count_mismatch)"
proof (intro conjI impI)
  assume ok: "parse_hunk_body g pl h ctx = Inr st"
  from assms have old0: "0 \<le> sint (old_start h) + sint (old_lines h)"
    and new0: "0 \<le> sint (new_start h) + sint (new_lines h)" by simp_all
  from ok obtain st1 where run: "parse_hunk_lines h (hunk_body_start pl h ctx) = Inr st1"
    and z: "oldlines st1 = 0" "newlines st1 = 0"
    and fin: "st = st1 \<or>
         (take 1 (ctx_line (cursor st1)) = [CHR 0x5C] \<and>
          st = st1\<lparr>cursor := git_parse_advance_line (cursor st1),
                    base_lines := base_lines st1 @ [trailing_eofnl st1],
                    line_count := line_count st1 + 1\<rparr>)"
    by (rule parse_hunk_body_Inr)
  from parse_hunk_lines_counts [OF old0 new0 run] z
  obtain new where new: "base_lines st1 = pl @ new"
    "sint (old_lines h) = int (length (filter on_old_side new))"
    "sint (new_lines h) = int (length (filter on_new_side new))"
    by (auto simp: hunk_body_start_def)
  have eof: "\<not> on_old_side (trailing_eofnl st1)" "\<not> on_new_side (trailing_eofnl st1)"
    by (simp_all add: on_old_side_def on_new_side_def trailing_eofnl_def)
  from fin new eof
  show "int (length (filter on_old_side (drop (length pl) (base_lines st)))) = sint (old_lines h)"
    by auto
  from fin new eof
  show "int (length (filter on_new_side (drop (length pl) (base_lines st)))) = sint (new_lines h)"
    by auto
next
  assume "parse_hunk_lines h (hunk_body_start pl h ctx) = Inr st1 \<and>
            (oldlines st1 \<noteq> 0 \<or> newlines st1 \<noteq> 0)"
  then show "parse_hunk_body g pl h ctx = Inl Hunk_line_count_mismatch"
    by (auto simp: parse_hunk_body_def)
qed

theorem hunk_line_counts_match_witness:
  "0 \<le> sint (old_start ex_hunk) \<and> 0 \<le> sint (old_lines ex_hunk) \<and>
   0 \<le> sint (new_start ex_hunk) \<and> 0 \<le> sint (new_lines ex_hunk) \<and>
   parse_hunk_body (\<lambda>l. False) [] ex_hunk (git_parse_ctx_init ex_body) = Inr ex_body_parsed \<and>
   int (length (filter on_old_side (base_lines ex_body_parsed))) = 2 \<and>
   int (length (filter on_new_side (base_lines ex_body_parsed))) = 2 \<and>
   parse_hunk_body (\<lambda>l. False) [] ex_hunk (git_parse_ctx_init (take 1 ex_body)) =
     Inl Hunk_line_count_mismatch"
proof -
  have h: "0 \<le> sint (old_start ex_hunk)" "0 \<le> sint (old_lines ex_hunk)"
    "0 \<le> sint (new_start ex_hunk)" "0 \<le> sint (new_lines ex_hunk)"
    by (simp_all add: ex_hunk_def)
  from hunk_line_counts_match [OF h, of "\<lambda>l. False" "[]" "git_parse_ctx_init ex_body" ex_body_parsed]
    ex_body_run
  have counts: "int (length (filter on_old_side (base_lines ex_body_parsed))) = 2"
    "int (length (filter on_new_side (base_lines ex_body_parsed))) = 2"
    by (simp_all add: ex_hunk_def)
  from hunk_line_counts_match [OF h, of "\<lambda>l. False" "[]" "git_parse_ctx_init (take 1 ex_body)" _
      "\<lparr>cursor = \<lparr>content_len = 3, remaining = [], line_num = 2\<rparr>,
          oldlines = 1, newlines = 1, last_origin = Some GIT_DIFF_LINE_CONTEXT,
          base_lines =
            [\<lparr>origin = GIT_DIFF_LINE_CONTEXT, old_lineno = 3, new_lineno = 3, num_lines = 1,
              line_content_len = 2, content_offset = 0, content = ''a\<newline>''\<rparr>],
          line_count = 1\<rparr>"]
    ex_body_short_run
  have "parse_hunk_body (\<lambda>l. False) [] ex_hunk (git_parse_ctx_init (take 1 ex_body)) =
     Inl Hunk_line_count_mismatch"
    by simp
  with h counts ex_body_run show ?thesis by simp
qed


text \<open>
  Claim C2, as amended. The four operations of lines 65-68 are checked against the range
  of the C type \<open>int\<close>, in which the hunk fields, the counters and the line numbers are
  declared: \<open>parse_hunk_line\<close> fails with "unrepresentable line count at line N"
  exactly when one of the four exact values \<open>old_start + old_lines\<close>,
  \<open>old_start + old_lines - oldlines\<close>, \<open>new_start + new_lines\<close>,
  \<open>new_start + new_lines - newlines\<close> lies outside that range; and each line number of
  an emitted line is either the marker \<open>-1\<close> or the exact value of its side, never a
  wrapped one.
\<close>

theorem hunk_lineno_overflow_checked:
  "(parse_hunk_line h ctx ol nl lo =
      git_parse_err (''unrepresentable line count at line '' @ fmt_uz (line_num ctx))
    \<longleftrightarrow> \<not> line_count_representable h ol nl) \<and>
   (parse_hunk_line h ctx ol nl lo = Inr (Some (l, ol', nl')) \<longrightarrow>
      (old_lineno l = - 1 \<or>
       sint (old_lineno l) = sint (old_start h) + sint (old_lines h) - sint ol) \<and>
      (new_lineno l = - 1 \<or>
       sint (new_lineno l) = sint (new_start h) + sint (new_lines h) - sint nl))"
proof (intro conjI impI)
  show "parse_hunk_line h ctx ol nl lo =
      git_parse_err (''unrepresentable line count at line '' @ fmt_uz (line_num ctx))
    \<longleftrightarrow> \<not> line_count_representable h ol nl"
  proof
    assume "parse_hunk_line h ctx ol nl lo =
      (git_parse_err (''unrepresentable line count at line '' @ fmt_uz (line_num ctx))
        :: patch_failure + (git_diff_line \<times> c_int \<times> c_int) option)"
    then show "\<not> line_count_representable h ol nl"
      by (auto simp: parse_hunk_line_def git_parse_err_def hunk_linenos_None [symmetric]
          split: option.splits list.splits if_splits)
  next
    assume "\<not> line_count_representable h ol nl"
    then show "parse_hunk_line h ctx ol nl lo =
      git_parse_err (''unrepresentable line count at line '' @ fmt_uz (line_num ctx))"
      by (rule parse_hunk_line_overflow)
  qed
next
  assume a: "parse_hunk_line h ctx ol nl lo = Inr (Some (l, ol', nl'))"
  from a obtain p q where pq: "hunk_linenos h ol nl = Some (p, q)"
    and cases: "(old_lineno l = p \<or> old_lineno l = - 1) \<and>
                (new_lineno l = q \<or> new_lineno l = - 1)"
    by (rule parse_hunk_line_Some) auto
  from hunk_linenos_Some [OF pq] cases
  show "old_lineno l = - 1 \<or>
       sint (old_lineno l) = sint (old_start h) + sint (old_lines h) - sint ol"
    by auto
  from hunk_linenos_Some [OF pq] cases
  show "new_lineno l = - 1 \<or>
       sint (new_lineno l) = sint (new_start h) + sint (new_lines h) - sint nl"
    by auto
qed

lemma ex_deletion_line:
  "parse_hunk_line ex_hunk (git_parse_ctx_init [''-b\<newline>'']) 2 2 None =
     Inr (Some (\<lparr>origin = GIT_DIFF_LINE_DELETION, old_lineno = 3, new_lineno = - 1,
                  num_lines = 1, line_content_len = 2, content_offset = 0,
                  content = ''b\<newline>''\<rparr>, 1, 2))"
  by (simp add: hunk_body_eval ex_hunk_def)

theorem hunk_lineno_overflow_checked_witness:
  "\<not> line_count_representable ex_edge_hunk 1 1 \<and>
   parse_hunk_line ex_edge_hunk (git_parse_ctx_init [''-b\<newline>'']) 1 1 None =
     git_parse_err (''unrepresentable line count at line '' @ fmt_uz 1) \<and>
   parse_hunk_line ex_hunk (git_parse_ctx_init [''-b\<newline>'']) 2 2 None =
     Inr (Some (\<lparr>origin = GIT_DIFF_LINE_DELETION, old_lineno = 3, new_lineno = - 1,
                  num_lines = 1, line_content_len = 2, content_offset = 0,
                  content = ''b\<newline>''\<rparr>, 1, 2)) \<and>
   sint (3 :: c_int) = sint (old_start ex_hunk) + sint (old_lines ex_hunk) - sint (2 :: c_int)"
proof -
  have n: "\<not> line_count_representable ex_edge_hunk 1 1"
    by (simp add: line_count_representable_def ex_edge_hunk_def in_int_def INT_MIN_def
        INT_MAX_def)
  from n ex_deletion_line
    hunk_lineno_overflow_checked [of ex_edge_hunk "git_parse_ctx_init [''-b\<newline>'']" 1 1 None]
    hunk_lineno_overflow_checked [of ex_hunk "git_parse_ctx_init [''-b\<newline>'']" 2 2 None
      "\<lparr>origin = GIT_DIFF_LINE_DELETION, old_lineno = 3, new_lineno = - 1,
        num_lines = 1, line_content_len = 2, content_offset = 0,
        content = ''b\<newline>''\<rparr>" 1 2]
  show ?thesis by (simp add: git_parse_ctx_init_def)
qed

text \<open>
  The claim as it is stated, with detection over signed 64-bit arithmetic, fails on the
  header \<open>@@ -2147483647,1 +1,1 @@\<close>: none of the four values leaves the signed 64-bit
  range (the old line number would be 2147483647), and still the first body line is
  rejected with the overflow error.
\<close>

theorem hunk_lineno_int64_counterexample:
  "line_count_representable_int64 ex_edge_hunk 1 1 \<and>
   parse_hunk_line ex_edge_hunk (git_parse_ctx_init [''-b\<newline>'', ''+c\<newline>'']) 1 1 None =
     git_parse_err (''unrepresentable line count at line '' @ fmt_uz 1)"
  by (simp add: parse_hunk_line_def hunk_linenos_def git__add_int_overflow_def in_int_def
      INT_MIN_def INT_MAX_def git_parse_ctx_init_def line_count_representable_int64_def
      in_int64_def ex_edge_hunk_def)




section \<open>Properties of the header parser\<close>

lemma line_num_advance_chars [simp]: "line_num (git_parse_advance_chars c n) = line_num c"
  by (cases "remaining c") (simp_all add: git_parse_advance_chars_def)











section \<open>Properties of the binary section parsers\<close>

lemma expected_str_Some:
  "git_parse_advance_expected_str ctx e = Some ctx' \<longleftrightarrow>
     (\<exists>rest. ctx_line ctx = e @ rest \<and> ctx' = git_parse_advance_chars ctx (length e))"
proof -
  have "take (length e) (ctx_line ctx) = e \<longleftrightarrow> (\<exists>rest. ctx_line ctx = e @ rest)"
    by (metis append_eq_conv_conj append_take_drop_id)
  then show ?thesis
    by (auto simp: git_parse_advance_expected_str_def)
qed

lemma ctx_line_advance_chars:
  "ctx_line ctx = e @ rest \<Longrightarrow> ctx_line (git_parse_advance_chars ctx (length e)) = rest"
  by (cases "remaining ctx") (auto simp: ctx_line_def git_parse_advance_chars_def)

lemma advance_line_after_chars:
  "git_parse_advance_line (git_parse_advance_chars c n) = git_parse_advance_line c"
  by (cases "remaining c") (simp_all add: git_parse_advance_line_def git_parse_advance_chars_def)

lemma match_step:
  "Option.bind (git_parse_advance_expected_str ctx e) f = Some r \<longleftrightarrow>
     (\<exists>rest. ctx_line ctx = e @ rest \<and> f (git_parse_advance_chars ctx (length e)) = Some r)"
  by (auto simp: bind_eq_Some_conv expected_str_Some)

text \<open>The five matches and the newline succeed exactly on the line made of the five parts.\<close>

lemma nodata_chain:
  "Option.bind (git_parse_advance_expected_str ctx a) (\<lambda>c1.
     Option.bind (git_parse_advance_expected_str c1 b) (\<lambda>c2.
     Option.bind (git_parse_advance_expected_str c2 c) (\<lambda>c3.
     Option.bind (git_parse_advance_expected_str c3 d) (\<lambda>c4.
     Option.bind (git_parse_advance_expected_str c4 e)
       git_parse_advance_nl)))) = Some r \<longleftrightarrow>
   ctx_line ctx = a @ b @ c @ d @ e @ [CHR 0x0A] \<and> r = git_parse_advance_line ctx"
  (is "?lhs \<longleftrightarrow> ?rhs")
proof
  assume ?lhs
  then obtain r1 r2 r3 r4 r5 where
    "ctx_line ctx = a @ r1"
    "ctx_line (git_parse_advance_chars ctx (length a)) = b @ r2"
    "ctx_line (git_parse_advance_chars (git_parse_advance_chars ctx (length a)) (length b)) = c @ r3"
    "ctx_line (git_parse_advance_chars (git_parse_advance_chars (git_parse_advance_chars ctx
       (length a)) (length b)) (length c)) = d @ r4"
    "ctx_line (git_parse_advance_chars (git_parse_advance_chars (git_parse_advance_chars
       (git_parse_advance_chars ctx (length a)) (length b)) (length c)) (length d)) = e @ r5"
    "git_parse_advance_nl (git_parse_advance_chars (git_parse_advance_chars
       (git_parse_advance_chars (git_parse_advance_chars (git_parse_advance_chars ctx
       (length a)) (length b)) (length c)) (length d)) (length e)) = Some r"
    unfolding match_step by blast
  then show ?rhs
    by (auto simp: ctx_line_advance_chars git_parse_advance_nl_def advance_line_after_chars
        split: if_splits)
next
  assume ?rhs
  then show ?lhs
    unfolding match_step
    by (auto simp: ctx_line_advance_chars git_parse_advance_nl_def advance_line_after_chars)
qed

text \<open>
  Claim C5. Without an established old name or new name the short form fails with
  "corrupt binary data without paths at line N". With both, the expected names are the
  established ones, with \<open>/dev/null\<close> for the old side of an added file and for the new
  side of a deleted file; the parse succeeds exactly when the line is
  \<open>Binary files <old> and <new> differ\<close> with these names, and fails with the same error
  on every other line.
\<close>

theorem binary_nodata_paths_checked:
  "(binary_old patch = None \<or> binary_new patch = None \<longrightarrow>
      parse_patch_binary_nodata patch ctx =
        git_parse_err (''corrupt binary data without paths at line '' @ fmt_uz (line_num ctx))) \<and>
   (binary_old patch \<noteq> None \<and> binary_new patch \<noteq> None \<and>
    expected_old patch = Some old \<and> expected_new patch = Some new \<longrightarrow>
      parse_patch_binary_nodata patch ctx =
        (if ctx_line ctx = ''Binary files '' @ old @ '' and '' @ new @ '' differ\<newline>''
         then Inr (patch\<lparr>flag_binary := True\<rparr>, git_parse_advance_line ctx)
         else git_parse_err (''corrupt binary data without paths at line '' @
                             fmt_uz (line_num ctx))))"
proof (intro conjI impI)
  assume "binary_old patch = None \<or> binary_new patch = None"
  then show "parse_patch_binary_nodata patch ctx =
        git_parse_err (''corrupt binary data without paths at line '' @ fmt_uz (line_num ctx))"
    by (auto simp: parse_patch_binary_nodata_def split: option.splits)
next
  assume a: "binary_old patch \<noteq> None \<and> binary_new patch \<noteq> None \<and>
    expected_old patch = Some old \<and> expected_new patch = Some new"
  then obtain old0 new0 where b: "binary_old patch = Some old0" "binary_new patch = Some new0"
    by auto
  from a b have old: "old = (if status patch = GIT_DELTA_ADDED then ''/dev/null'' else old0)"
    and new: "new = (if status patch = GIT_DELTA_ADDED then new0
                     else if status patch = GIT_DELTA_DELETED then ''/dev/null'' else new0)"
    by (auto simp: expected_old_def expected_new_def split: if_splits)
  let ?chain = "Option.bind (git_parse_advance_expected_str ctx ''Binary files '') (\<lambda>c1.
                  Option.bind (git_parse_advance_expected_str c1 old) (\<lambda>c2.
                  Option.bind (git_parse_advance_expected_str c2 '' and '') (\<lambda>c3.
                  Option.bind (git_parse_advance_expected_str c3 new) (\<lambda>c4.
                  Option.bind (git_parse_advance_expected_str c4 '' differ'')
                    git_parse_advance_nl))))"
  have unfold: "parse_patch_binary_nodata patch ctx =
      (case ?chain of
         None \<Rightarrow> git_parse_err (''corrupt binary data without paths at line '' @
                                fmt_uz (line_num ctx))
       | Some ctx' \<Rightarrow> Inr (patch\<lparr>flag_binary := True\<rparr>, ctx'))"
    unfolding parse_patch_binary_nodata_def b old new by (simp add: Let_def)
  show "parse_patch_binary_nodata patch ctx =
        (if ctx_line ctx = ''Binary files '' @ old @ '' and '' @ new @ '' differ\<newline>''
         then Inr (patch\<lparr>flag_binary := True\<rparr>, git_parse_advance_line ctx)
         else git_parse_err (''corrupt binary data without paths at line '' @
                             fmt_uz (line_num ctx)))"
  proof (cases ?chain)
    case None
    then have "ctx_line ctx \<noteq> ''Binary files '' @ old @ '' and '' @ new @ '' differ\<newline>''"
      using nodata_chain [of ctx "''Binary files ''" old "'' and ''" new "'' differ''"
          "git_parse_advance_line ctx"]
      by auto
    with None unfold show ?thesis by simp
  next
    case (Some r)
    then have "ctx_line ctx = ''Binary files '' @ old @ '' and '' @ new @ '' differ\<newline>''"
      and "r = git_parse_advance_line ctx"
      using nodata_chain [of ctx "''Binary files ''" old "'' and ''" new "'' differ''" r]
      by auto
    with Some unfold show ?thesis by simp
  qed
qed

text \<open>
  The section of \<open>x.bin\<close>: a line naming \<open>b/y.bin\<close> is rejected, the line naming
  \<open>b/x.bin\<close> is accepted, and a patch without any path is rejected.
\<close>

theorem binary_nodata_paths_checked_witness:
  "binary_old ex_patch \<noteq> None \<and> binary_new ex_patch \<noteq> None \<and>
   expected_old ex_patch = Some ''a/x.bin'' \<and> expected_new ex_patch = Some ''b/x.bin'' \<and>
   parse_patch_binary_nodata ex_patch
     (git_parse_ctx_init [''Binary files a/x.bin and b/y.bin differ\<newline>'']) =
     git_parse_err (''corrupt binary data without paths at line '' @ fmt_uz 1) \<and>
   parse_patch_binary_nodata ex_patch
     (git_parse_ctx_init [''Binary files a/x.bin and b/x.bin differ\<newline>'']) =
     Inr (ex_patch\<lparr>flag_binary := True\<rparr>, \<lparr>content_len = 40, remaining = [], line_num = 2\<rparr>) \<and>
   binary_old (ex_patch\<lparr>old_path := None, header_old_path := None\<rparr>) = None \<and>
   parse_patch_binary_nodata (ex_patch\<lparr>old_path := None, header_old_path := None\<rparr>)
     (git_parse_ctx_init [''Binary files a/x.bin and b/x.bin differ\<newline>'']) =
     git_parse_err (''corrupt binary data without paths at line '' @ fmt_uz 1)"
proof -
  have e: "binary_old ex_patch \<noteq> None" "binary_new ex_patch \<noteq> None"
    "expected_old ex_patch = Some ''a/x.bin''" "expected_new ex_patch = Some ''b/x.bin''"
    by (simp_all add: binary_old_def binary_new_def expected_old_def expected_new_def
        ex_patch_def)
  have n: "binary_old (ex_patch\<lparr>old_path := None, header_old_path := None\<rparr>) = None"
    by (simp add: binary_old_def)
  from e
    binary_nodata_paths_checked [of ex_patch
      "git_parse_ctx_init [''Binary files a/x.bin and b/y.bin differ\<newline>'']"
      "''a/x.bin''" "''b/x.bin''"]
  have bad: "parse_patch_binary_nodata ex_patch
     (git_parse_ctx_init [''Binary files a/x.bin and b/y.bin differ\<newline>'']) =
     git_parse_err (''corrupt binary data without paths at line '' @ fmt_uz 1)"
    by (simp add: git_parse_ctx_init_def ctx_line_def)
  from e
    binary_nodata_paths_checked [of ex_patch
      "git_parse_ctx_init [''Binary files a/x.bin and b/x.bin differ\<newline>'']"
      "''a/x.bin''" "''b/x.bin''"]
  have good: "parse_patch_binary_nodata ex_patch
     (git_parse_ctx_init [''Binary files a/x.bin and b/x.bin differ\<newline>'']) =
     Inr (ex_patch\<lparr>flag_binary := True\<rparr>, \<lparr>content_len = 40, remaining = [], line_num = 2\<rparr>)"
    by (simp add: git_parse_ctx_init_def ctx_line_def git_parse_advance_line_def)
  from n
    binary_nodata_paths_checked [of "ex_patch\<lparr>old_path := None, header_old_path := None\<rparr>"
      "git_parse_ctx_init [''Binary files a/x.bin and b/x.bin differ\<newline>'']"]
  have none: "parse_patch_binary_nodata (ex_patch\<lparr>old_path := None, header_old_path := None\<rparr>)
     (git_parse_ctx_init [''Binary files a/x.bin and b/x.bin differ\<newline>'']) =
     git_parse_err (''corrupt binary data without paths at line '' @ fmt_uz 1)"
    by (simp add: git_parse_ctx_init_def)
  from e n bad good none show ?thesis by simp
qed

lemma unat_size_of_nat:
  "n < 2 ^ 64 \<Longrightarrow> unat (of_nat n :: size_t) = n"
  by (simp add: unat_of_nat)

lemma binary_line_truncated_iff:
  assumes "n < 2 ^ 64"
  shows "binary_line_truncated encoded_len (of_nat n) \<longleftrightarrow>
      unat encoded_len = 0 \<or> n < unat encoded_len + 1"
proof (cases "n = 0")
  case True
  then show ?thesis by (simp add: binary_line_truncated_def)
next
  case False
  let ?l = "of_nat n :: size_t"
  from assms have un: "unat ?l = n" by (rule unat_size_of_nat)
  with False have nz: "?l \<noteq> 0" by (metis unat_0)
  from unat_minus_one [OF nz] un have "unat (?l - 1) = n - 1"
    by simp
  then have "encoded_len > ?l - 1 \<longleftrightarrow> n - 1 < unat encoded_len"
    by (simp only: word_less_nat_alt)
  moreover have "encoded_len = 0 \<longleftrightarrow> unat encoded_len = 0"
    by (simp only: unat_eq_zero)
  ultimately show ?thesis
    using False nz unfolding binary_line_truncated_def by auto
qed

text \<open>
  Claim C9. Let the current line be shorter than \<open>2^64\<close> bytes, so that its length is a
  \<open>size_t\<close>. A data line of the long form is rejected before anything is decoded
  exactly when \<open>encoded_len\<close> is zero or exceeds the length of the line minus one (an
  empty line included: the subtraction does not wrap into acceptance). When the line is
  accepted, the \<open>encoded_len\<close> characters handed to the decoder all lie in the line, and
  at least one byte of the line follows them.
\<close>

theorem binary_line_bound:
  assumes "length (ctx_line ctx) < 2 ^ 64"
  shows "(binary_line_encoded encoded_len ctx = Inl (Binary_decode_failure (line_num ctx)) \<longleftrightarrow>
            unat encoded_len = 0 \<or> length (ctx_line ctx) < unat encoded_len + 1) \<and>
         (binary_line_encoded encoded_len ctx = Inr s \<longrightarrow>
            s = take (unat encoded_len) (ctx_line ctx) \<and> length s = unat encoded_len \<and>
            0 < unat encoded_len \<and> unat encoded_len + 1 \<le> length (ctx_line ctx))"
  using binary_line_truncated_iff [OF assms, of encoded_len]
  by (auto simp: binary_line_encoded_def line_len_def)

text \<open>
  A line with five characters and its newline: five are accepted, ten are not, and no
  count is accepted at the end of the input.
\<close>

theorem binary_line_bound_witness:
  "length (ctx_line (git_parse_ctx_init [''abcde\<newline>''])) < 2 ^ 64 \<and>
   binary_line_encoded 5 (git_parse_ctx_init [''abcde\<newline>'']) = Inr ''abcde'' \<and>
   binary_line_encoded 10 (git_parse_ctx_init [''abcde\<newline>'']) = Inl (Binary_decode_failure 1) \<and>
   length (ctx_line (git_parse_ctx_init [])) < 2 ^ 64 \<and>
   binary_line_encoded 5 (git_parse_ctx_init []) = Inl (Binary_decode_failure 1)"
proof -
  have l: "length (ctx_line (git_parse_ctx_init [''abcde\<newline>''])) < 2 ^ 64"
    by (simp add: git_parse_ctx_init_def ctx_line_def)
  have l0: "length (ctx_line (git_parse_ctx_init [])) < 2 ^ 64"
    by (simp add: git_parse_ctx_init_def ctx_line_def)
  have ok: "binary_line_encoded 5 (git_parse_ctx_init [''abcde\<newline>'']) = Inr ''abcde''"
    by (simp add: binary_line_encoded_def binary_line_truncated_def git_parse_ctx_init_def
        ctx_line_def line_len_def)
  from binary_line_bound [OF l, of 10]
  have big: "binary_line_encoded 10 (git_parse_ctx_init [''abcde\<newline>'']) =
      Inl (Binary_decode_failure 1)"
    by (simp add: git_parse_ctx_init_def ctx_line_def)
  from binary_line_bound [OF l0, of 5]
  have empty: "binary_line_encoded 5 (git_parse_ctx_init []) = Inl (Binary_decode_failure 1)"
    by (simp add: git_parse_ctx_init_def ctx_line_def)
  from binary_line_bound [OF l, of 5 "''abcde''"] ok l l0 big empty
  show ?thesis by simp
qed

end
